theory Spec2Isabelle
  imports Complex_Main
begin

section \<open>Configuration and failures\<close>

text \<open>
  The two fields of \<^verbatim>\<open>config.Settings\<close> that the operation pipeline reads:
  \<^verbatim>\<open>enable_rbac\<close> (default True) and \<^verbatim>\<open>operation_timeout\<close> (default 300).
\<close>

record settings =
  enable_rbac :: bool
  operation_timeout :: int

definition default_settings :: settings where
  "default_settings = \<lparr>enable_rbac = True, operation_timeout = 300\<rparr>"

text \<open>
  The exception classes of \<^verbatim>\<open>exceptions.py\<close> that the modelled code raises, each
  carrying its message. \<^verbatim>\<open>TypeError\<close> is Python's own: \<^verbatim>\<open>raise None\<close> produces it.
  Every constructor is a subclass of \<^verbatim>\<open>Exception\<close>, so \<^verbatim>\<open>except Exception\<close> catches all.
\<close>

datatype exn =
    VMwareMCPException string
  | AuthorizationError string
  | ValidationError string
  | TimeoutError string
  | VMOperationError string
  | SnapshotOperationError string
  | ResourceOperationError string
  | TypeError string

text \<open>\<^verbatim>\<open>str(e)\<close>: the message the exception was built with.\<close>

fun str_exn :: "exn \<Rightarrow> string" where
  "str_exn (VMwareMCPException m) = m"
| "str_exn (AuthorizationError m) = m"
| "str_exn (ValidationError m) = m"
| "str_exn (TimeoutError m) = m"
| "str_exn (VMOperationError m) = m"
| "str_exn (SnapshotOperationError m) = m"
| "str_exn (ResourceOperationError m) = m"
| "str_exn (TypeError m) = m"

text \<open>The \<^verbatim>\<open>error_code\<close> each class passes to the base constructor: the failure's kind.\<close>

fun error_code :: "exn \<Rightarrow> string" where
  "error_code (VMwareMCPException m) = ''VMWARE_MCP_ERROR''"
| "error_code (AuthorizationError m) = ''AUTHZ_ERROR''"
| "error_code (ValidationError m) = ''VALIDATION_ERROR''"
| "error_code (TimeoutError m) = ''TIMEOUT_ERROR''"
| "error_code (VMOperationError m) = ''VM_OPERATION_ERROR''"
| "error_code (SnapshotOperationError m) = ''SNAPSHOT_OPERATION_ERROR''"
| "error_code (ResourceOperationError m) = ''RESOURCE_OPERATION_ERROR''"
| "error_code (TypeError m) = ''TypeError''"

section \<open>Permission registry (auth.py, RBACManager)\<close>

text \<open>The class attribute \<^verbatim>\<open>ROLES\<close>: a dict literal with three distinct keys.\<close>

definition ROLES :: "(string \<times> string list) list" where
  "ROLES =
    [(''admin'',
       [''vm:create'', ''vm:delete'', ''vm:start'', ''vm:stop'', ''vm:clone'', ''vm:migrate'',
        ''host:add'', ''host:remove'', ''host:maintenance'', ''host:monitor'',
        ''snapshot:create'', ''snapshot:delete'', ''snapshot:revert'',
        ''resource:allocate'', ''resource:monitor'',
        ''network:configure'', ''storage:configure'',
        ''system:configure'', ''system:monitor'']),
     (''operator'',
       [''vm:start'', ''vm:stop'', ''vm:clone'',
        ''snapshot:create'', ''snapshot:revert'',
        ''host:monitor'', ''resource:monitor'',
        ''system:monitor'']),
     (''viewer'',
       [''vm:list'', ''host:monitor'', ''resource:monitor'', ''system:monitor''])]"

text \<open>\<^verbatim>\<open>cls.ROLES.get(user_role, [])\<close>\<close>

definition get_user_permissions :: "string \<Rightarrow> string list" where
  "get_user_permissions user_role =
     (case map_of ROLES user_role of None \<Rightarrow> [] | Some ps \<Rightarrow> ps)"

definition check_permission :: "settings \<Rightarrow> string \<Rightarrow> string \<Rightarrow> bool" where
  "check_permission s user_role required_permission =
     (if \<not> enable_rbac s then True
      else (let user_permissions = get_user_permissions user_role
            in required_permission \<in> set user_permissions))"

section \<open>Long-running-task poller (utils.py, wait_for_task_async)\<close>

text \<open>Decimal printing of Python integers, as used by the f-strings of the messages.\<close>

fun str_nat :: "nat \<Rightarrow> string" where
  "str_nat n =
     (if n < 10 then [''0123456789'' ! n]
      else str_nat (n div 10) @ [''0123456789'' ! (n mod 10)])"

declare str_nat.simps [simp del]

definition str_int :: "int \<Rightarrow> string" where
  "str_int i = (if i < 0 then ''-'' @ str_nat (nat (- i)) else str_nat (nat i))"

text \<open>
  \<^verbatim>\<open>vim.TaskInfo.State\<close> has the four values queued, running, success and error. The
  poller's last \<^verbatim>\<open>else\<close> branch answers any other value; \<open>Unexpected\<close> stands for such a
  value and carries its printed form.
\<close>

datatype task_state = Queued | Running | Success | Error | Unexpected string

fun str_state :: "task_state \<Rightarrow> string" where
  "str_state Queued = ''queued''"
| "str_state Running = ''running''"
| "str_state Success = ''success''"
| "str_state Error = ''error''"
| "str_state (Unexpected s) = s"

text \<open>A result payload is represented by its printed form.\<close>

type_synonym payload = string

text \<open>\<^verbatim>\<open>task.info\<close>: the fields the poller reads (\<^verbatim>\<open>error_msg\<close> is \<^verbatim>\<open>info.error.msg\<close>).\<close>

record task_info =
  info_key :: string
  info_state :: task_state
  info_result :: payload
  info_error_msg :: string

text \<open>
  A task handle is what the remote side reports about it over time: \<open>task k\<close> is the value
  of \<^verbatim>\<open>task.info\<close> read in the \<open>k\<close>-th iteration of the poller's loop, that is after
  \<open>k\<close> calls of \<^verbatim>\<open>asyncio.sleep(1)\<close>.
\<close>

type_synonym task = "nat \<Rightarrow> task_info"

text \<open>
  Time. In iteration \<open>k\<close> the poller has slept \<open>k\<close> times for at least one second each,
  so \<^verbatim>\<open>time.time() - start_time\<close> is \<open>k\<close> plus whatever else has passed (late wake-ups,
  the remote reads): \<open>lag k\<close>, never negative. The exact clock is \<open>lag = (\<lambda>k. 0)\<close>.
\<close>

type_synonym lag = "nat \<Rightarrow> real"

definition elapsed :: "lag \<Rightarrow> nat \<Rightarrow> real" where
  "elapsed lag k = real k + max 0 (lag k)"

definition exact_clock :: lag where
  "exact_clock k = 0"

text \<open>
  The \<^verbatim>\<open>while\<close> loop and the branches after it; \<open>k\<close> counts the sleeps done so far.
  The second component of the result is the number of sleeps done when the call returns
  or raises.
\<close>

function wait_loop :: "lag \<Rightarrow> task \<Rightarrow> int \<Rightarrow> nat \<Rightarrow> (exn + payload) \<times> nat" where
  "wait_loop lag task timeout k =
     (if info_state (task k) \<in> {Running, Queued} then
        (if elapsed lag k > real_of_int timeout then
           (Inl (TimeoutError (''Task '' @ info_key (task k) @ '' timed out after ''
                                @ str_int timeout @ ''s'')), k)
         else wait_loop lag task timeout (Suc k))
      else if info_state (task k) = Success then (Inr (info_result (task k)), k)
      else if info_state (task k) = Error then
        (Inl (VMwareMCPException (''Task failed: '' @ info_error_msg (task k))), k)
      else
        (Inl (VMwareMCPException (''Task ended with unexpected state: ''
                                   @ str_state (info_state (task k)))), k))"
  by pat_completeness auto
termination
  by (relation "measure (\<lambda>(lag, task, timeout, k). nat (timeout + 1 - int k))")
     (auto simp: elapsed_def)

declare wait_loop.simps [simp del]

text \<open>\<^verbatim>\<open>timeout = timeout or settings.operation_timeout\<close>: None and 0 are both falsy.\<close>

definition effective_timeout :: "settings \<Rightarrow> int option \<Rightarrow> int" where
  "effective_timeout s timeout =
     (case timeout of
        None \<Rightarrow> operation_timeout s
      | Some t \<Rightarrow> (if t \<noteq> 0 then t else operation_timeout s))"

definition wait_for_task_async ::
  "settings \<Rightarrow> lag \<Rightarrow> task \<Rightarrow> int option \<Rightarrow> (exn + payload) \<times> nat" where
  "wait_for_task_async s lag task timeout =
     (let timeout = effective_timeout s timeout in wait_loop lag task timeout 0)"






section \<open>Retry policy (utils.py, async_retry)\<close>








section \<open>The world of an operation\<close>

text \<open>\<^verbatim>\<open>vim.VirtualMachinePowerState\<close>\<close>

datatype power_state = poweredOn | poweredOff | suspended

text \<open>
  \<^verbatim>\<open>vim.vm.SnapshotTree\<close>: a node has a name, the reference to its \<^verbatim>\<open>vim.vm.Snapshot\<close>
  managed object and its child nodes. A managed object is never falsy in Python, so a
  reference found is always truthy.
\<close>

type_synonym snapshot_ref = string

datatype snapshot_tree =
  SnapshotTree (snap_name: string) (snap_ref: snapshot_ref) (childSnapshotList: "snapshot_tree list")

text \<open>
  A virtual machine of the inventory, with what the modelled operations read from it.
  \<open>v_snapshot\<close> is \<^verbatim>\<open>vm.snapshot\<close>: None for a machine without snapshots, otherwise its
  \<^verbatim>\<open>rootSnapshotList\<close>.
\<close>

record vm =
  v_name :: string
  v_powerState :: power_state
  v_snapshot :: "snapshot_tree list option"

text \<open>The calls the modelled operations make on the management-plane client.\<close>

datatype client_call =
    RetrieveContent
  | CreateContainerView
  | DestroyView
  | PowerOnVM_Task string
  | PowerOffVM_Task string
  | Destroy_Task string
  | ReconfigVM_Task string "int option" "int option"
  | RemoveSnapshot_Task snapshot_ref bool

text \<open>The calls that submit an action and return a task handle.\<close>

fun is_task_call :: "client_call \<Rightarrow> bool" where
  "is_task_call RetrieveContent = False"
| "is_task_call CreateContainerView = False"
| "is_task_call DestroyView = False"
| "is_task_call (PowerOnVM_Task n) = True"
| "is_task_call (PowerOffVM_Task n) = True"
| "is_task_call (Destroy_Task n) = True"
| "is_task_call (ReconfigVM_Task n c m) = True"
| "is_task_call (RemoveSnapshot_Task r b) = True"

text \<open>The dictionary that \<^verbatim>\<open>audit_log\<close> hands to the audit logger, and the level used.\<close>

record audit_record =
  au_operation :: string
  au_resource_type :: "string option"
  au_status :: string
  au_error :: "string option"
  au_duration :: real
  au_timestamp :: real

datatype audit_level = INFO | ERROR

text \<open>What an operation does that can be observed, in the order it happens.\<close>

datatype event =
    Call client_call
  | Sleep real
  | Audit audit_level audit_record

fun is_call :: "event \<Rightarrow> bool" where
  "is_call (Call c) = True"
| "is_call (Sleep d) = False"
| "is_call (Audit l r) = False"

fun is_submit :: "event \<Rightarrow> bool" where
  "is_submit (Call c) = is_task_call c"
| "is_submit (Sleep d) = False"
| "is_submit (Audit l r) = False"

fun is_audit :: "event \<Rightarrow> bool" where
  "is_audit (Call c) = False"
| "is_audit (Sleep d) = False"
| "is_audit (Audit l r) = True"

fun is_sleep :: "event \<Rightarrow> bool" where
  "is_sleep (Call c) = False"
| "is_sleep (Sleep d) = True"
| "is_sleep (Audit l r) = False"

text \<open>
  The world an operation runs in. \<open>si\<close>: the auth manager holds a service instance.
  \<open>inventory\<close>: the machines a container view lists, in its order. \<open>issued n\<close>: the task
  handle the management plane returns for the \<open>n\<close>-th action submitted. \<open>audit_raises\<close>:
  the failure, if any, that the audit logger raises when handed a record. \<open>clock0\<close>:
  \<^verbatim>\<open>time.time()\<close> when the history starts. \<open>events\<close>: the history so far.
  Only the history changes while an operation runs.
\<close>

record world =
  si :: bool
  inventory :: "vm list"
  issued :: "nat \<Rightarrow> task"
  audit_raises :: "audit_level \<Rightarrow> audit_record \<Rightarrow> exn option"
  clock0 :: real
  events :: "event list"

text \<open>
  Time in a world: a sleep takes exactly its duration (nothing, when that is not
  positive) and everything else takes no time.
\<close>

fun total_sleep :: "event list \<Rightarrow> real" where
  "total_sleep [] = 0"
| "total_sleep (Sleep d # es) = max 0 d + total_sleep es"
| "total_sleep (Call c # es) = total_sleep es"
| "total_sleep (Audit l r # es) = total_sleep es"

definition time_time :: "world \<Rightarrow> real" where
  "time_time w = clock0 w + total_sleep (events w)"


definition call :: "client_call \<Rightarrow> world \<Rightarrow> world" where
  "call c w = w\<lparr>events := events w @ [Call c]\<rparr>"

text \<open>Submitting an action: the call is made and the next task handle comes back.\<close>

definition submit :: "client_call \<Rightarrow> world \<Rightarrow> task \<times> world" where
  "submit c w = (issued w (length (filter is_submit (events w))), call c w)"

text \<open>
  The poller run inside a world, on the exact clock: its sleeps enter the history.
\<close>

definition wait_for_task :: "settings \<Rightarrow> task \<Rightarrow> int option \<Rightarrow> world \<Rightarrow> (exn + payload) \<times> world" where
  "wait_for_task s task timeout w =
     (case wait_for_task_async s exact_clock task timeout of
        (r, n) \<Rightarrow> (r, w\<lparr>events := events w @ replicate n (Sleep 1)\<rparr>))"

text \<open>
  \<^verbatim>\<open>get_vm_by_name\<close>: a container view is created, its machines are searched in order for
  the first one with the name, and the view is destroyed (\<^verbatim>\<open>finally\<close>).
\<close>

definition get_vm_by_name :: "string \<Rightarrow> world \<Rightarrow> vm option \<times> world" where
  "get_vm_by_name name w =
     (find (\<lambda>v. v_name v = name) (inventory w), call DestroyView (call CreateContainerView w))"


text \<open>
  \<^verbatim>\<open>validate_vm_name\<close>. A string is a list of characters; \<^verbatim>\<open>len\<close> is its length. The
  characters refused are / \ : * ? " < > and |.
\<close>

definition invalid_chars :: "char list" where
  "invalid_chars = [CHR ''/'', CHR 0x5C, CHR '':'', CHR ''*'', CHR ''?'', CHR 0x22,
                    CHR ''<'', CHR ''>'', CHR ''|'']"

definition validate_vm_name :: "string \<Rightarrow> bool" where
  "validate_vm_name vm_name =
     (if vm_name = [] \<or> length vm_name < 1 \<or> length vm_name > 80 then False
      else \<not> list_ex (\<lambda>char. char \<in> set vm_name) invalid_chars)"

text \<open>The values operations return: Python dictionaries, lists and scalars.\<close>

datatype pyval =
    PStr string
  | PInt int
  | PBool bool
  | PNone
  | PList "pyval list"
  | PDict "(string \<times> pyval) list"

text \<open>A name between single quotes, as the f-strings of the messages print it.\<close>

definition quoted :: "string \<Rightarrow> string" where
  "quoted n = CHR 0x27 # n @ [CHR 0x27]"

section \<open>Timeout wrapper (utils.py, timeout_handler)\<close>

text \<open>
  The part of a history that has happened when \<open>t\<close> seconds have passed: the sleep that
  is running at that moment is cut short.
\<close>

fun cut :: "real \<Rightarrow> event list \<Rightarrow> event list" where
  "cut t [] = []"
| "cut t (Sleep d # es) = (if max 0 d < t then Sleep d # cut (t - max 0 d) es else [Sleep t])"
| "cut t (Call c # es) = Call c # cut t es"
| "cut t (Audit l r # es) = Audit l r # cut t es"

text \<open>
  \<^verbatim>\<open>asyncio.wait_for(func(...), timeout)\<close> with \<^verbatim>\<open>timeout = timeout_seconds or
  settings.operation_timeout\<close>. With a timeout that is not positive, \<^verbatim>\<open>wait_for\<close> cancels
  the function before it starts. Otherwise the function runs; if the time it needs
  stays below the timeout its outcome is passed on, and if not it is cancelled at the
  deadline, where it is sleeping: what it did until then has happened, and the wrapper
  raises its own timeout failure.
\<close>

definition timeout_handler ::
  "string \<Rightarrow> int option \<Rightarrow> settings \<Rightarrow> (world \<Rightarrow> (exn + 'a) \<times> world)
     \<Rightarrow> world \<Rightarrow> (exn + 'a) \<times> world" where
  "timeout_handler func_name timeout_seconds s func w =
     (let timeout = effective_timeout s timeout_seconds;
          failure = TimeoutError (''Operation '' @ func_name @ '' timed out after ''
                                   @ str_int timeout @ ''s'')
      in if timeout \<le> 0 then (Inl failure, w)
         else (case func w of
                 (r, w') \<Rightarrow>
                   (let done = drop (length (events w)) (events w')
                    in if total_sleep done < real_of_int timeout then (r, w')
                       else (Inl failure,
                             w\<lparr>events := events w @ cut (real_of_int timeout) done\<rparr>))))"

section \<open>Audit recorder (utils.py, audit_log)\<close>

text \<open>
  Handing a record to the audit logger: it is written to the history, unless the logger
  raises.
\<close>

definition audit_emit :: "audit_level \<Rightarrow> audit_record \<Rightarrow> world \<Rightarrow> exn option \<times> world" where
  "audit_emit level r w =
     (case audit_raises w level r of
        None \<Rightarrow> (None, w\<lparr>events := events w @ [Audit level r]\<rparr>)
      | Some e \<Rightarrow> (Some e, w))"

text \<open>
  The \<^verbatim>\<open>except Exception\<close> clause: the "failed" record is handed to the logger at level
  error, then the failure caught is raised again; a failure of the logger replaces it.
\<close>

definition audit_failed ::
  "string \<Rightarrow> string option \<Rightarrow> real \<Rightarrow> exn \<Rightarrow> world \<Rightarrow> (exn + 'a) \<times> world" where
  "audit_failed operation resource_type start_time e w =
     (let duration = time_time w - start_time;
          r = \<lparr>au_operation = operation, au_resource_type = resource_type,
               au_status = ''failed'', au_error = Some (str_exn e),
               au_duration = duration, au_timestamp = time_time w\<rparr>
      in case audit_emit ERROR r w of
           (None, w') \<Rightarrow> (Inl e, w')
         | (Some e', w') \<Rightarrow> (Inl e', w'))"

text \<open>
  The wrapper. The "success" record is handed to the logger inside the \<^verbatim>\<open>try\<close> block,
  so a failure of the logger there is caught by the \<^verbatim>\<open>except\<close> clause like a failure of
  the function.
\<close>

definition audit_log ::
  "string \<Rightarrow> string option \<Rightarrow> (world \<Rightarrow> (exn + 'a) \<times> world) \<Rightarrow> world \<Rightarrow> (exn + 'a) \<times> world" where
  "audit_log operation resource_type func w =
     (let start_time = time_time w
      in case func w of
           (Inr result, w1) \<Rightarrow>
             (let duration = time_time w1 - start_time;
                  r = \<lparr>au_operation = operation, au_resource_type = resource_type,
                       au_status = ''success'', au_error = None,
                       au_duration = duration, au_timestamp = time_time w1\<rparr>
              in case audit_emit INFO r w1 of
                   (None, w2) \<Rightarrow> (Inr result, w2)
                 | (Some e, w2) \<Rightarrow> audit_failed operation resource_type start_time e w2)
         | (Inl e, w1) \<Rightarrow> audit_failed operation resource_type start_time e w1)"

text \<open>
  The record that describes an outcome \<open>r\<close> reached in world \<open>w1\<close> by an invocation
  started at \<open>start_time\<close>, and the level it is logged at.
\<close>

definition outcome_record ::
  "string \<Rightarrow> string option \<Rightarrow> real \<Rightarrow> exn + 'a \<Rightarrow> world \<Rightarrow> audit_record" where
  "outcome_record operation resource_type start_time r w1 =
     \<lparr>au_operation = operation, au_resource_type = resource_type,
      au_status = (case r of Inl e \<Rightarrow> ''failed'' | Inr v \<Rightarrow> ''success''),
      au_error = (case r of Inl e \<Rightarrow> Some (str_exn e) | Inr v \<Rightarrow> None),
      au_duration = time_time w1 - start_time,
      au_timestamp = time_time w1\<rparr>"

definition outcome_level :: "exn + 'a \<Rightarrow> audit_level" where
  "outcome_level r = (case r of Inl e \<Rightarrow> ERROR | Inr v \<Rightarrow> INFO)"

text \<open>Sample worlds: two machines, every task still running at its first poll and
  succeeded from the second on; an audit logger that works, and one that raises.\<close>

definition slow_task :: task where
  "slow_task k =
     \<lparr>info_key = ''task-3'',
      info_state = (if k < 1 then Running else Success),
      info_result = ''None'',
      info_error_msg = ''''\<rparr>"


definition world0 :: world where
  "world0 =
     \<lparr>si = True,
      inventory =
        [\<lparr>v_name = ''web01'', v_powerState = poweredOn, v_snapshot = None\<rparr>,
         \<lparr>v_name = ''db01'', v_powerState = poweredOff,
          v_snapshot = Some [SnapshotTree ''base'' ''snap-1''
                               [SnapshotTree ''patched'' ''snap-2'' [],
                                SnapshotTree ''base'' ''snap-3'' []],
                             SnapshotTree ''patched'' ''snap-4'' []]\<rparr>],
      issued = (\<lambda>n. slow_task),
      audit_raises = (\<lambda>l r. None),
      clock0 = 0,
      events = []\<rparr>"





section \<open>Operations\<close>

text \<open>
  Every operation body ends in \<^verbatim>\<open>except Exception as e: raise XError(f"prefix: {str(e)}")\<close>:
  whatever its \<^verbatim>\<open>try\<close> block raises is replaced by a failure of the operation's own class
  whose message is the prefix followed by the text of the original.
\<close>

definition try_except ::
  "(string \<Rightarrow> exn) \<Rightarrow> string \<Rightarrow> (exn + 'a) \<times> world \<Rightarrow> (exn + 'a) \<times> world" where
  "try_except mk prefix rw =
     (case rw of
        (Inr v, w') \<Rightarrow> (Inr v, w')
      | (Inl e, w') \<Rightarrow> (Inl (mk (prefix @ str_exn e)), w'))"

subsection \<open>vm\_operations.py: start\_vm\<close>




subsection \<open>vm\_operations.py: stop\_vm\<close>



subsection \<open>vm\_operations.py: delete\_vm\<close>




subsection \<open>vm\_operations.py: list\_vms and get\_vm\_details\<close>








subsection \<open>resource\_operations.py: modify\_vm\_resources\<close>

definition modify_vm_resources_try ::
  "settings \<Rightarrow> string \<Rightarrow> int option \<Rightarrow> int option \<Rightarrow> world \<Rightarrow> (exn + pyval) \<times> world" where
  "modify_vm_resources_try s vm_name cpu_count memory_mb w =
     (if \<not> si w then (Inl (ResourceOperationError ''No active VMware connection''), w)
      else (case get_vm_by_name vm_name (call RetrieveContent w) of
              (None, w2) \<Rightarrow>
                (Inl (ResourceOperationError (''VM '' @ quoted vm_name @ '' not found'')), w2)
            | (Some vm, w2) \<Rightarrow>
                (let changes_made =
                       (case cpu_count of None \<Rightarrow> [] | Some c \<Rightarrow> [''CPU count: '' @ str_int c])
                       @ (case memory_mb of None \<Rightarrow> []
                          | Some m \<Rightarrow> [''Memory: '' @ str_int m @ '' MB''])
                 in if changes_made = [] then
                      (Inr (PDict [(''status'', PStr ''no_changes''),
                                   (''vm_name'', PStr vm_name),
                                   (''message'', PStr ''No resource changes specified'')]), w2)
                    else (case submit (ReconfigVM_Task (v_name vm) cpu_count memory_mb) w2 of
                            (task, w3) \<Rightarrow>
                              (case wait_for_task s task None w3 of
                                 (Inl e, w4) \<Rightarrow> (Inl e, w4)
                               | (Inr result, w4) \<Rightarrow>
                                   (Inr (PDict [(''status'', PStr ''modified''),
                                                (''vm_name'', PStr vm_name),
                                                (''changes'', PList (map PStr changes_made)),
                                                (''task_result'', PStr result)]), w4))))))"

definition modify_vm_resources_fn ::
  "settings \<Rightarrow> string \<Rightarrow> int option \<Rightarrow> int option \<Rightarrow> string \<Rightarrow> world
     \<Rightarrow> (exn + pyval) \<times> world" where
  "modify_vm_resources_fn s vm_name cpu_count memory_mb user_role w =
     (if \<not> check_permission s user_role ''resource:allocate'' then
        (Inl (AuthorizationError ''Insufficient permissions to modify VM resources''), w)
      else if \<not> validate_vm_name vm_name then
        (Inl (ValidationError (''Invalid VM name: '' @ vm_name)), w)
      else if (case cpu_count of None \<Rightarrow> False | Some c \<Rightarrow> c < 1 \<or> c > 128) then
        (Inl (ValidationError ''CPU count must be between 1 and 128''), w)
      else if (case memory_mb of None \<Rightarrow> False | Some m \<Rightarrow> m < 4 \<or> m > 1048576) then
        (Inl (ValidationError ''Memory must be between 4 MB and 1 TB''), w)
      else try_except ResourceOperationError ''Failed to modify VM resources: ''
             (modify_vm_resources_try s vm_name cpu_count memory_mb w))"

definition modify_vm_resources ::
  "settings \<Rightarrow> string \<Rightarrow> int option \<Rightarrow> int option \<Rightarrow> string \<Rightarrow> world
     \<Rightarrow> (exn + pyval) \<times> world" where
  "modify_vm_resources s vm_name cpu_count memory_mb user_role =
     audit_log ''modify_vm_resources'' (Some ''resource'')
       (timeout_handler ''modify_vm_resources'' None s
          (modify_vm_resources_fn s vm_name cpu_count memory_mb user_role))"

subsection \<open>snapshot\_operations.py: \_find\_snapshot\_by\_name and delete\_snapshot\<close>






subsection \<open>mcp\_server.py: call\_tool\<close>






section \<open>Properties of the permission registry\<close>

text \<open>
  Claim C1. With authorization enabled, \<^verbatim>\<open>check_permission(role, capability)\<close> is true
  exactly when the capability is listed in the role's entry of the permission table; for a
  role that has no entry it is false (a value, not an error). With the global switch
  \<^verbatim>\<open>enable_rbac\<close> off it is true for every role and capability.
\<close>

theorem check_permission_table:
  "(enable_rbac s \<longrightarrow>
      check_permission s role cap = (\<exists>ps. map_of ROLES role = Some ps \<and> cap \<in> set ps))
   \<and> (enable_rbac s \<and> map_of ROLES role = None \<longrightarrow> check_permission s role cap = False)
   \<and> (\<not> enable_rbac s \<longrightarrow> check_permission s role cap = True)"
  by (cases "map_of ROLES role") (simp_all add: check_permission_def get_user_permissions_def)

theorem check_permission_table_witness:
  "enable_rbac default_settings
   \<and> check_permission default_settings ''operator'' ''vm:start''
   \<and> \<not> check_permission default_settings ''operator'' ''vm:delete''
   \<and> map_of ROLES ''auditor'' = None
   \<and> \<not> check_permission default_settings ''auditor'' ''vm:start''
   \<and> \<not> enable_rbac (default_settings\<lparr>enable_rbac := False\<rparr>)
   \<and> check_permission (default_settings\<lparr>enable_rbac := False\<rparr>) ''auditor'' ''vm:delete''"
  using check_permission_table [of default_settings "''operator''" "''vm:start''"]
        check_permission_table [of default_settings "''operator''" "''vm:delete''"]
        check_permission_table [of default_settings "''auditor''" "''vm:start''"]
        check_permission_table [of "default_settings\<lparr>enable_rbac := False\<rparr>" "''auditor''" "''vm:delete''"]
  by (simp add: default_settings_def ROLES_def)

section \<open>Properties of the poller\<close>





section \<open>Properties of the retry policy\<close>




section \<open>Properties of the audit recorder\<close>




section \<open>How the wrappers pass an outcome on\<close>

text \<open>
  With a positive timeout, a function that needs less time than the timeout has its
  outcome passed on by the timeout wrapper.
\<close>

lemma timeout_handler_pass:
  assumes "0 < effective_timeout s ts"
      and "func w = (r, w')"
      and "events w' = events w @ es"
      and "total_sleep es < real_of_int (effective_timeout s ts)"
  shows "timeout_handler name ts s func w = (r, w')"
  using assms by (simp add: timeout_handler_def Let_def)

text \<open>With an audit logger that does not raise, the audit wrapper adds one record to
  the history and passes the outcome on.\<close>

lemma audit_log_quiet:
  assumes "func w = (r, w1)"
      and "\<forall>l rec. audit_raises w1 l rec = None"
  shows "audit_log operation resource_type func w =
           (r, w1\<lparr>events := events w1 @
                  [Audit (outcome_level r)
                     (outcome_record operation resource_type (time_time w) r w1)]\<rparr>)"
  using assms
  by (cases r)
     (simp_all add: audit_log_def audit_failed_def audit_emit_def outcome_record_def
                    outcome_level_def Let_def)



section \<open>Properties of the snapshot lookup\<close>









section \<open>Properties of the role table and the operations gated on vm:list\<close>



section \<open>Properties of retried operations\<close>






section \<open>Properties of the operations on an existing machine\<close>

text \<open>
  A function that makes calls \<open>es\<close> in less time than the timeout, under the timeout
  wrapper and the audit wrapper with a logger that does not raise.
\<close>

lemma audited_timed_pass:
  assumes "func w = (r, w\<lparr>events := events w @ es\<rparr>)"
      and "0 < effective_timeout s ts"
      and "total_sleep es < real_of_int (effective_timeout s ts)"
      and "\<forall>l rec. audit_raises w l rec = None"
  shows "audit_log operation resource_type (timeout_handler name ts s func) w =
           (r, w\<lparr>events := events w @ es @
                  [Audit (outcome_level r)
                     (outcome_record operation resource_type (time_time w) r
                        (w\<lparr>events := events w @ es\<rparr>))]\<rparr>)"
proof -
  let ?w' = "w\<lparr>events := events w @ es\<rparr>"
  have th: "timeout_handler name ts s func w = (r, ?w')"
    by (rule timeout_handler_pass [where func = func and w = w and es = es,
                                   OF assms(2) assms(1)])
       (use assms(3) in simp_all)
  have q: "\<forall>l rec. audit_raises ?w' l rec = None"
    using assms(4) by simp
  show ?thesis
    unfolding audit_log_quiet [where func = "timeout_handler name ts s func" and w = w,
                               OF th q]
    by simp
qed






text \<open>One run of \<^verbatim>\<open>modify_vm_resources\<close> without a cpu and without a memory argument.\<close>

lemma modify_vm_resources_fn_no_changes:
  assumes "check_permission s user_role ''resource:allocate''"
      and "validate_vm_name vm_name"
      and "si w"
      and "find (\<lambda>v. v_name v = vm_name) (inventory w) = Some vm"
  shows "modify_vm_resources_fn s vm_name None None user_role w =
           (Inr (PDict [(''status'', PStr ''no_changes''), (''vm_name'', PStr vm_name),
                        (''message'', PStr ''No resource changes specified'')]),
            w\<lparr>events := events w @
                 [Call RetrieveContent, Call CreateContainerView, Call DestroyView]\<rparr>)"
  using assms
  by (simp add: modify_vm_resources_fn_def modify_vm_resources_try_def try_except_def
                get_vm_by_name_def call_def)

text \<open>
  Claim C6, as the code has it. Resource-modify called by an authorized role with
  neither a cpu nor a memory argument, for a valid name of a machine that exists, on an
  active connection: the result is a success with status "no\_changes", and no action
  is submitted; the machine is looked up first, which takes three calls to the
  management-plane client.
\<close>

theorem modify_without_changes:
  assumes "check_permission s user_role ''resource:allocate''"
      and "validate_vm_name vm_name"
      and "si w"
      and "find (\<lambda>v. v_name v = vm_name) (inventory w) = Some vm"
      and "0 < operation_timeout s"
      and "\<forall>l rec. audit_raises w l rec = None"
  shows "fst (modify_vm_resources s vm_name None None user_role w) =
           Inr (PDict [(''status'', PStr ''no_changes''), (''vm_name'', PStr vm_name),
                       (''message'', PStr ''No resource changes specified'')])
       \<and> filter is_submit (events (snd (modify_vm_resources s vm_name None None user_role w)))
           = filter is_submit (events w)
       \<and> filter is_call (events (snd (modify_vm_resources s vm_name None None user_role w)))
           = filter is_call (events w)
             @ [Call RetrieveContent, Call CreateContainerView, Call DestroyView]"
proof -
  have t: "0 < effective_timeout s None"
    using assms(5) by (simp add: effective_timeout_def)
  note fn = modify_vm_resources_fn_no_changes [OF assms(1-4)]
  have a: "audit_log ''modify_vm_resources'' (Some ''resource'')
             (timeout_handler ''modify_vm_resources'' None s
                (modify_vm_resources_fn s vm_name None None user_role)) w =
           (Inr (PDict [(''status'', PStr ''no_changes''), (''vm_name'', PStr vm_name),
                        (''message'', PStr ''No resource changes specified'')]),
            w\<lparr>events := events w @
                 [Call RetrieveContent, Call CreateContainerView, Call DestroyView] @
                 [Audit (outcome_level (Inr (PDict [(''status'', PStr ''no_changes''),
                            (''vm_name'', PStr vm_name),
                            (''message'', PStr ''No resource changes specified'')]) :: exn + pyval))
                    (outcome_record ''modify_vm_resources'' (Some ''resource'') (time_time w)
                       (Inr (PDict [(''status'', PStr ''no_changes''),
                            (''vm_name'', PStr vm_name),
                            (''message'', PStr ''No resource changes specified'')]) :: exn + pyval)
                       (w\<lparr>events := events w @
                          [Call RetrieveContent, Call CreateContainerView,
                           Call DestroyView]\<rparr>))]\<rparr>)"
    by (rule audited_timed_pass
               [where func = "modify_vm_resources_fn s vm_name None None user_role"
                  and es = "[Call RetrieveContent, Call CreateContainerView, Call DestroyView]",
                OF fn t _ assms(6)])
       (use t in simp)
  show ?thesis
    unfolding modify_vm_resources_def a by simp
qed

theorem modify_without_changes_witness:
  "check_permission default_settings ''admin'' ''resource:allocate''
   \<and> validate_vm_name ''db01'' \<and> si world0
   \<and> find (\<lambda>v. v_name v = ''db01'') (inventory world0) = Some (inventory world0 ! 1)
   \<and> 0 < operation_timeout default_settings
   \<and> fst (modify_vm_resources default_settings ''db01'' None None ''admin'' world0) =
           Inr (PDict [(''status'', PStr ''no_changes''), (''vm_name'', PStr ''db01''),
                       (''message'', PStr ''No resource changes specified'')])
   \<and> filter is_submit
        (events (snd (modify_vm_resources default_settings ''db01'' None None ''admin'' world0)))
       = []"
proof -
  have p: "check_permission default_settings ''admin'' ''resource:allocate''"
    by (simp add: check_permission_def get_user_permissions_def ROLES_def default_settings_def)
  have v: "validate_vm_name ''db01''"
    by (simp add: validate_vm_name_def invalid_chars_def)
  have i: "si world0"
          "find (\<lambda>v. v_name v = ''db01'') (inventory world0) = Some (inventory world0 ! 1)"
          "0 < operation_timeout default_settings"
          "\<forall>l rec. audit_raises world0 l rec = None"
    by (simp_all add: world0_def default_settings_def)
  have e: "events world0 = []"
    by (simp add: world0_def)
  show ?thesis
    using modify_without_changes [OF p v i] p v i(1-3) by (simp add: e)
qed

text \<open>
  Claim C6 as stated fails: the call of an authorized role without cpu and memory
  arguments makes three calls to the management-plane client before it answers
  "no\_changes", and for a name that no machine has it fails.
\<close>

theorem modify_without_changes_counterexample:
  "check_permission default_settings ''admin'' ''resource:allocate''
   \<and> filter is_call
        (events (snd (modify_vm_resources default_settings ''db01'' None None ''admin'' world0)))
       = [Call RetrieveContent, Call CreateContainerView, Call DestroyView]
   \<and> fst (modify_vm_resources default_settings ''ghost'' None None ''admin'' world0)
       = Inl (ResourceOperationError
                (''Failed to modify VM resources: VM '' @ quoted ''ghost'' @ '' not found''))"
  by (simp add: check_permission_def get_user_permissions_def ROLES_def default_settings_def
                modify_vm_resources_def modify_vm_resources_fn_def modify_vm_resources_try_def
                try_except_def get_vm_by_name_def call_def validate_vm_name_def
                invalid_chars_def audit_log_def audit_failed_def audit_emit_def
                timeout_handler_def effective_timeout_def world0_def Let_def)


lemma filter_replicate_sleep [simp]:
  "filter is_submit (replicate n (Sleep d)) = []"
  "filter is_call (replicate n (Sleep d)) = []"
  "filter is_sleep (replicate n (Sleep d)) = replicate n (Sleep d)"
  by (induction n) simp_all





section \<open>Properties of failure propagation\<close>






end
